theory Spec2Isabelle
  imports Main
begin

section \<open>JavaScript values, errors and the RegExp fragment\<close>

text \<open>
  Strings are lists of 8-bit characters (environment variable names, patterns and CLI
  output are ASCII in practice).  A thrown exception is a value of \<open>js_error\<close>; a function
  that can throw returns \<open>js_error + 'a\<close> with \<open>Inl\<close> for the throw.  \<open>OutsideModel\<close> is
  not a JavaScript error: it is the answer of the reference reading of regular
  expressions below for a source whose syntax that reading does not interpret.
\<close>

datatype js_error = SyntaxError | TypeError | Error string | OutsideModel

text \<open>
  The part of the RegExp grammar that is interpreted: pattern characters, the wildcard
  \<open>.\<close>, the assertions \<open>^\<close> and \<open>$\<close> and the quantifier \<open>*\<close> on a single atom.
\<close>

datatype atom = Lit char | AnyChar

datatype item = AssertStart | AssertEnd | One atom | Star atom

definition is_line_terminator :: "char \<Rightarrow> bool" where
  "is_line_terminator c = (c = CHR 0x0A \<or> c = CHR 0x0D)"

definition syntax_chars :: "char list" where
  "syntax_chars = [CHR ''^'', CHR ''$'', CHR 0x5C, CHR ''.'', CHR ''*'', CHR ''+'', CHR ''?'',
     CHR ''('', CHR '')'', CHR ''['', CHR '']'', CHR ''{'', CHR ''}'', CHR ''|'']"

fun cons_item :: "item \<Rightarrow> js_error + item list \<Rightarrow> js_error + item list" where
  "cons_item i (Inl e) = Inl e"
| "cons_item i (Inr its) = Inr (i # its)"

text \<open>
  \<open>new RegExp(source)\<close>, read left to right.  A \<open>*\<close> with nothing to repeat and a \<open>)\<close>
  with no group open are SyntaxErrors whatever follows; the other syntax characters
  (escapes, groups, classes, the other quantifiers, alternation) are outside the model.
\<close>

fun regexp_parse :: "string \<Rightarrow> js_error + item list" where
  "regexp_parse [] = Inr []"
| "regexp_parse (c # cs) =
     (if c = CHR ''^'' then cons_item AssertStart (regexp_parse cs)
      else if c = CHR ''$'' then cons_item AssertEnd (regexp_parse cs)
      else if c = CHR ''*'' \<or> c = CHR '')'' then Inl SyntaxError
      else if c \<in> set syntax_chars \<and> c \<noteq> CHR ''.'' then Inl OutsideModel
      else (let a = (if c = CHR ''.'' then AnyChar else Lit c) in
            case cs of
              [] \<Rightarrow> Inr [One a]
            | d # ds \<Rightarrow>
                if d = CHR ''*'' then cons_item (Star a) (regexp_parse ds)
                else cons_item (One a) (regexp_parse cs)))"

fun atom_matches :: "atom \<Rightarrow> char \<Rightarrow> bool" where
  "atom_matches (Lit d) c = (c = d)"
| "atom_matches AnyChar c = (\<not> is_line_terminator c)"

text \<open>
  Backtracking match of the items at one position: \<open>at_start\<close> says whether the position
  is index 0, the string is what remains.  The greedy branch of \<open>*\<close> is tried first.
\<close>

fun match_here :: "item list \<Rightarrow> bool \<Rightarrow> string \<Rightarrow> bool" where
  "match_here [] at_start s = True"
| "match_here (AssertStart # r) at_start s = (at_start \<and> match_here r at_start s)"
| "match_here (AssertEnd # r) at_start s = (s = [] \<and> match_here r at_start s)"
| "match_here (One a # r) at_start [] = False"
| "match_here (One a # r) at_start (c # s) = (atom_matches a c \<and> match_here r False s)"
| "match_here (Star a # r) at_start [] = match_here r at_start []"
| "match_here (Star a # r) at_start (c # s) =
     ((atom_matches a c \<and> match_here (Star a # r) False s) \<or> match_here r at_start (c # s))"

text \<open>\<open>regex.test(s)\<close> without flags: a match at any start index.\<close>

fun regexp_search :: "item list \<Rightarrow> bool \<Rightarrow> string \<Rightarrow> bool" where
  "regexp_search re at_start [] = match_here re at_start []"
| "regexp_search re at_start (c # s) = (match_here re at_start (c # s) \<or> regexp_search re False s)"

definition regexp_test :: "item list \<Rightarrow> string \<Rightarrow> bool" where
  "regexp_test re s = regexp_search re True s"

text \<open>\<open>pattern.replace(/\*/g, '.*')\<close>\<close>

fun replace_stars :: "string \<Rightarrow> string" where
  "replace_stars [] = []"
| "replace_stars (c # cs) = (if c = CHR ''*'' then ''.*'' @ replace_stars cs else c # replace_stars cs)"

text \<open>
  The test that \<open>isProtectedVar\<close> and both callbacks of \<open>shouldExclude\<close> apply to one
  pattern: a pattern with a \<open>*\<close> goes through \<open>new RegExp('^' + ... + '$').test(key)\<close>, any
  other pattern is compared with \<open>===\<close>.
\<close>

definition pattern_test :: "string \<Rightarrow> string \<Rightarrow> js_error + bool" where
  "pattern_test key pattern =
     (if CHR ''*'' \<in> set pattern
      then (case regexp_parse (''^'' @ replace_stars pattern @ ''$'') of
              Inl e \<Rightarrow> Inl e
            | Inr re \<Rightarrow> Inr (regexp_test re key))
      else Inr (key = pattern))"


section \<open>The RegExp engine as a parameter\<close>

text \<open>
  The regular expressions of the program are built by the engine of the JavaScript
  runtime, whose grammar is far larger than the fragment read by \<open>regexp_parse\<close>.  An
  engine is what \<open>new RegExp(source)\<close> does: it throws, or it returns a regex, taken here
  as its \<open>test\<close> method (no flags are ever passed, so \<open>test\<close> is a function of the
  string).  Every function of the program that builds a regex takes the engine as a
  parameter.

  \<open>reference_engine\<close> is the reading of the previous section, with \<open>OutsideModel\<close> for
  every source outside the fragment.  An engine \<open>conforms\<close> when it agrees with the
  reference on the sources of the fragment; outside the fragment nothing is required
  of it, so it may return a regex or throw there, as the runtime's engine does.
\<close>

type_synonym regexp_engine = "string \<Rightarrow> js_error + (string \<Rightarrow> bool)"

definition reference_engine :: regexp_engine where
  "reference_engine source =
     (case regexp_parse source of Inl e \<Rightarrow> Inl e | Inr re \<Rightarrow> Inr (regexp_test re))"

definition conforms :: "regexp_engine \<Rightarrow> bool" where
  "conforms E = (\<forall>source. regexp_parse source \<noteq> Inl OutsideModel \<longrightarrow> E source = reference_engine source)"

text \<open>\<open>'^' + pattern.replace(/\*/g, '.*') + '$'\<close>\<close>

definition regexp_source :: "string \<Rightarrow> string" where
  "regexp_source pattern = ''^'' @ replace_stars pattern @ ''$''"

text \<open>
  The test of one pattern, as \<open>isProtectedVar\<close> and both callbacks of \<open>shouldExclude\<close>
  write it, on an engine \<open>E\<close>.  \<open>pattern_test\<close> is this test on the reference engine.
\<close>

definition pattern_test_on :: "regexp_engine \<Rightarrow> string \<Rightarrow> string \<Rightarrow> js_error + bool" where
  "pattern_test_on E key pattern =
     (if CHR ''*'' \<in> set pattern
      then (case E (regexp_source pattern) of
              Inl e \<Rightarrow> Inl e
            | Inr regex \<Rightarrow> Inr (regex key))
      else Inr (key = pattern))"

section \<open>The pattern matcher as the specification words it\<close>

text \<open>
  The specification's matcher: a pattern without \<open>*\<close> matches exactly itself; in a pattern
  with \<open>*\<close> every \<open>*\<close> stands for a run of zero or more characters, every other character
  for itself, and the whole pattern must match the whole name.  \<open>glob_lang\<close> is the set of
  names a pattern matches in that reading, \<open>glob_match\<close> decides membership.
\<close>

fun glob_lang :: "string \<Rightarrow> string set" where
  "glob_lang [] = {[]}"
| "glob_lang (c # p) =
     (if c = CHR ''*'' then {run @ t | run t. t \<in> glob_lang p} else {c # t | t. t \<in> glob_lang p})"

fun glob_match :: "string \<Rightarrow> string \<Rightarrow> bool" where
  "glob_match [] s = (s = [])"
| "glob_match (c # p) [] = (c = CHR ''*'' \<and> glob_match p [])"
| "glob_match (c # p) (x # s) =
     (if c = CHR ''*'' then glob_match (c # p) s \<or> glob_match p (x # s)
      else x = c \<and> glob_match p s)"

text \<open>Patterns whose characters other than \<open>*\<close> mean themselves in a RegExp source.\<close>

definition plain_pattern :: "string \<Rightarrow> bool" where
  "plain_pattern p = (\<forall>c\<in>set p. c = CHR ''*'' \<or> c \<notin> set syntax_chars)"

definition no_line_terminator :: "string \<Rightarrow> bool" where
  "no_line_terminator s = (\<forall>c\<in>set s. \<not> is_line_terminator c)"

text \<open>The items \<open>new RegExp\<close> builds between the anchors for a plain pattern.\<close>

fun glob_items :: "string \<Rightarrow> item list" where
  "glob_items [] = []"
| "glob_items (c # p) = (if c = CHR ''*'' then Star AnyChar else One (Lit c)) # glob_items p"

text \<open>
  Patterns whose RegExp source stays inside the fragment: none of the characters
  \<open>\ + ? ( [ ] { } |\<close>.  A \<open>)\<close> is allowed: with no group open it is a SyntaxError of
  the fragment.
\<close>

definition fragment_pattern :: "string \<Rightarrow> bool" where
  "fragment_pattern p = (\<forall>c\<in>set p. c \<notin> set [CHR 0x5C, CHR ''+'', CHR ''?'', CHR ''('',
     CHR ''['', CHR '']'', CHR ''{'', CHR ''}'', CHR ''|''])"

section \<open>Objects, configuration and the filter policy\<close>

text \<open>
  An object that maps variable names to values is the list of its own enumerable
  properties in enumeration order; \<open>Object.keys\<close> and \<open>Object.entries\<close> read that order.
  For names that are not array indices it is the insertion order.  A \<open>Set\<close> of names is
  the list of its elements in insertion order, without repetition.
\<close>

type_synonym vars = "(string \<times> string) list"

definition object_keys :: "vars \<Rightarrow> string list" where
  "object_keys obj = map fst obj"

text \<open>
  \<open>obj[key]\<close> on an object created by \<open>{}\<close> or by spreading: an own property, else the
  member of \<open>Object.prototype\<close> of that name, else \<open>undefined\<close>.
\<close>

datatype 'a property = Own 'a | Inherited string | Undefined

definition object_prototype_names :: "string list" where
  "object_prototype_names =
     [''constructor'', ''__defineGetter__'', ''__defineSetter__'', ''hasOwnProperty'',
      ''__lookupGetter__'', ''__lookupSetter__'', ''isPrototypeOf'', ''propertyIsEnumerable'',
      ''toString'', ''valueOf'', ''__proto__'', ''toLocaleString'']"

definition get_property :: "(string \<times> 'a) list \<Rightarrow> string \<Rightarrow> 'a property" where
  "get_property obj key =
     (case map_of obj key of
        Some v \<Rightarrow> Own v
      | None \<Rightarrow> if key \<in> set object_prototype_names then Inherited key else Undefined)"

text \<open>
  \<open>obj[key] = value\<close> on an object created by \<open>{}\<close>: an existing property keeps its place,
  a new one is added last, and the key \<open>__proto__\<close> reaches the prototype setter, which
  ignores a string and creates no property.
\<close>

fun put_property :: "string \<Rightarrow> string \<Rightarrow> vars \<Rightarrow> vars" where
  "put_property k v [] = [(k, v)]"
| "put_property k v ((k', v') # rest) =
     (if k' = k then (k, v) # rest else (k', v') # put_property k v rest)"

definition assign_property :: "vars \<Rightarrow> string \<Rightarrow> string \<Rightarrow> vars" where
  "assign_property obj key v = (if key = ''__proto__'' then obj else put_property key v obj)"

text \<open>\<open>new Set(iterable)\<close> and \<open>Set.prototype.add\<close>.\<close>

definition set_add :: "'a list \<Rightarrow> 'a \<Rightarrow> 'a list" where
  "set_add s x = (if x \<in> set s then s else s @ [x])"

definition new_Set :: "'a list \<Rightarrow> 'a list" where
  "new_Set xs = foldl set_add [] xs"

text \<open>The configuration: the environment mapping and the two pattern lists.\<close>

record env_config =
  cfg_file :: string
  cfg_target :: string

record config =
  environments :: "(string \<times> env_config) list"
  cfg_exclude :: "string list"
  cfg_include :: "string list"

definition getDefaults :: config where
  "getDefaults =
     \<lparr>environments =
        [(''development'', \<lparr>cfg_file = ''.env.local'', cfg_target = ''development''\<rparr>),
         (''preview'', \<lparr>cfg_file = ''.env.staging'', cfg_target = ''preview''\<rparr>),
         (''production'', \<lparr>cfg_file = ''.env.production'', cfg_target = ''production''\<rparr>)],
      cfg_exclude = [''VERCEL_*'', ''CI'', ''NODE_ENV'', ''PWD'', ''HOME'', ''PATH'', ''USER'', ''SHELL''],
      cfg_include = []\<rparr>"

fun join :: "string list \<Rightarrow> string" where
  "join [] = []"
| "join [x] = x"
| "join (x # y # ys) = x @ '', '' @ join (y # ys)"

text \<open>
  \<open>getEnvironment\<close> throws when the lookup is falsy, that is \<open>undefined\<close>; an inherited
  member of \<open>Object.prototype\<close> is truthy and is returned.  \<open>getFilePath\<close> and \<open>getTarget\<close>
  read \<open>.file\<close> and \<open>.target\<close> of what is returned; an inherited member has neither.
\<close>

definition getEnvironment :: "config \<Rightarrow> string \<Rightarrow> js_error + env_config property" where
  "getEnvironment c environment =
     (case get_property (environments c) environment of
        Undefined \<Rightarrow> Inl (Error (''Unknown environment: '' @ environment @ ''. Available: ''
                                 @ join (map fst (environments c))))
      | Own envConfig \<Rightarrow> Inr (Own envConfig)
      | Inherited member \<Rightarrow> Inr (Inherited member))"

definition getFilePath :: "config \<Rightarrow> string \<Rightarrow> js_error + string property" where
  "getFilePath c environment =
     (case getEnvironment c environment of
        Inl e \<Rightarrow> Inl e
      | Inr (Own envConfig) \<Rightarrow> Inr (Own (cfg_file envConfig))
      | Inr other \<Rightarrow> Inr Undefined)"

definition getTarget :: "config \<Rightarrow> string \<Rightarrow> js_error + string property" where
  "getTarget c environment =
     (case getEnvironment c environment of
        Inl e \<Rightarrow> Inl e
      | Inr (Own envConfig) \<Rightarrow> Inr (Own (cfg_target envConfig))
      | Inr other \<Rightarrow> Inr Undefined)"

text \<open>
  \<open>patterns.some(pattern => ...)\<close> with the callback of \<open>shouldExclude\<close>: the patterns are
  tried in order, the first match ends the scan, and a throwing callback ends it with
  the exception.
\<close>

fun some_pattern :: "regexp_engine \<Rightarrow> string \<Rightarrow> string list \<Rightarrow> js_error + bool" where
  "some_pattern E key [] = Inr False"
| "some_pattern E key (pattern # rest) =
     (case pattern_test_on E key pattern of
        Inl e \<Rightarrow> Inl e
      | Inr matched \<Rightarrow> if matched then Inr True else some_pattern E key rest)"

definition shouldExclude :: "regexp_engine \<Rightarrow> config \<Rightarrow> string \<Rightarrow> js_error + bool" where
  "shouldExclude E c key =
     (if length (cfg_include c) > 0
      then (case some_pattern E key (cfg_include c) of
              Inl e \<Rightarrow> Inl e
            | Inr shouldInclude \<Rightarrow>
                if \<not> shouldInclude then Inr True else some_pattern E key (cfg_exclude c))
      else some_pattern E key (cfg_exclude c))"

text \<open>
  \<open>filterVars\<close>: the loop over \<open>Object.entries(envVars)\<close> with its two accumulators.  The
  function returns \<open>filtered\<close>; the \<open>excluded\<close> names are what it logs, and the model
  returns them too.
\<close>

fun filter_entries ::
  "regexp_engine \<Rightarrow> config \<Rightarrow> vars \<Rightarrow> vars \<Rightarrow> string list \<Rightarrow> js_error + vars \<times> string list" where
  "filter_entries E c [] filtered excluded = Inr (filtered, excluded)"
| "filter_entries E c ((key, v) # rest) filtered excluded =
     (case shouldExclude E c key of
        Inl e \<Rightarrow> Inl e
      | Inr ex \<Rightarrow>
          if ex then filter_entries E c rest filtered (excluded @ [key])
          else filter_entries E c rest (assign_property filtered key v) excluded)"

definition filterVars :: "regexp_engine \<Rightarrow> config \<Rightarrow> vars \<Rightarrow> js_error + vars \<times> string list" where
  "filterVars E c envVars = filter_entries E c envVars [] []"

section \<open>Platforms and protection\<close>

text \<open>
  A platform is the object the syncer calls: its name, its protected patterns
  (\<open>getSystemVars\<close>), its environments and its three asynchronous operations.  The
  operations act on the outside world \<open>'w\<close>; an operation either throws or returns.
  \<open>execSync\<close> is the shell: a command either fails or yields its output.  The
  environment and the value an operation receives are whatever the caller read from an
  object, so they are properties.
\<close>

type_synonym 'w exec = "string \<Rightarrow> 'w \<Rightarrow> (js_error + string) \<times> 'w"

record 'w platform =
  platform_name :: string
  getSystemVars :: "string list"
  getValidEnvironments :: "string list"
  listRemoteVars :: "string property \<Rightarrow> 'w \<Rightarrow> (js_error + string list) \<times> 'w"
  setRemoteVar :: "string \<Rightarrow> string property \<Rightarrow> string property \<Rightarrow> 'w \<Rightarrow> (js_error + bool) \<times> 'w"
  removeRemoteVar :: "string \<Rightarrow> string property \<Rightarrow> 'w \<Rightarrow> (js_error + bool) \<times> 'w"

fun isProtectedVar_loop :: "regexp_engine \<Rightarrow> string list \<Rightarrow> string \<Rightarrow> js_error + bool" where
  "isProtectedVar_loop E [] key = Inr False"
| "isProtectedVar_loop E (pattern # rest) key =
     (case pattern_test_on E key pattern of
        Inl e \<Rightarrow> Inl e
      | Inr matched \<Rightarrow> if matched then Inr True else isProtectedVar_loop E rest key)"

definition isProtectedVar :: "regexp_engine \<Rightarrow> 'w platform \<Rightarrow> string \<Rightarrow> js_error + bool" where
  "isProtectedVar E p key = isProtectedVar_loop E (getSystemVars p) key"

definition validateEnvironment :: "'w platform \<Rightarrow> string \<Rightarrow> bool" where
  "validateEnvironment p environment = (environment \<in> set (getValidEnvironments p))"

section \<open>The base and the Vercel platform\<close>

definition not_implemented :: "string \<Rightarrow> js_error" where
  "not_implemented operation = Error (operation @ ''() method must be implemented by platform subclass'')"

definition base_getSystemVars :: "string list" where
  "base_getSystemVars = new_Set [''CI'', ''NODE_ENV'', ''PWD'', ''HOME'', ''PATH'', ''USER'', ''SHELL'']"

definition BasePlatform :: "'w platform" where
  "BasePlatform =
     \<lparr>platform_name = ''base'',
      getSystemVars = base_getSystemVars,
      getValidEnvironments = [''development'', ''preview'', ''production''],
      listRemoteVars = (\<lambda>environment w. (Inl (not_implemented ''listRemoteVars''), w)),
      setRemoteVar = (\<lambda>key v environment w. (Inl (not_implemented ''setRemoteVar''), w)),
      removeRemoteVar = (\<lambda>key environment w. (Inl (not_implemented ''removeRemoteVar''), w))\<rparr>"

text \<open>White space as \<open>trim\<close> and \<open>\s\<close> read it, among the 8-bit characters.\<close>

definition is_whitespace :: "char \<Rightarrow> bool" where
  "is_whitespace c = (c \<in> set [CHR 0x09, CHR 0x0A, CHR 0x0B, CHR 0x0C, CHR 0x0D, CHR 0x20, CHR 0xA0])"

definition trim :: "string \<Rightarrow> string" where
  "trim s = rev (dropWhile is_whitespace (rev (dropWhile is_whitespace s)))"

text \<open>\<open>output.split('\n')\<close>\<close>

fun split_lines :: "string \<Rightarrow> string list" where
  "split_lines [] = [[]]"
| "split_lines (c # cs) =
     (if c = CHR 0x0A then [] # split_lines cs
      else (case split_lines cs of [] \<Rightarrow> [[c]] | l # ls \<Rightarrow> (c # l) # ls))"

definition startsWith :: "string \<Rightarrow> string \<Rightarrow> bool" where
  "startsWith s pre = (take (length pre) s = pre)"

text \<open>
  The body of the \<open>forEach\<close> over the lines of \<open>vc env ls\<close>: header and separator lines
  are skipped, the first column of any other line is a name unless it holds a \<open>=\<close>.
  \<open>trimmed.split(/\s+/)[0]\<close> is the text before the first white space.
\<close>

definition add_listed_var :: "string list \<Rightarrow> string \<Rightarrow> string list" where
  "add_listed_var envVars line =
     (let trimmed = trim line in
      if trimmed \<noteq> [] \<and> \<not> startsWith trimmed ''name'' \<and> \<not> startsWith trimmed ''---''
      then (let part0 = takeWhile (\<lambda>c. \<not> is_whitespace c) trimmed in
            if part0 \<noteq> [] \<and> CHR ''='' \<notin> set part0 then set_add envVars part0 else envVars)
      else envVars)"

text \<open>
  A property inside a template literal: a string is itself, \<open>undefined\<close> prints as its
  name, an inherited member of \<open>Object.prototype\<close> prints as the native function it is
  (\<open>constructor\<close> is the function \<open>Object\<close>, \<open>__proto__\<close> is the prototype object).
\<close>

definition template :: "string property \<Rightarrow> string" where
  "template v =
     (case v of
        Own s \<Rightarrow> s
      | Undefined \<Rightarrow> ''undefined''
      | Inherited member \<Rightarrow>
          if member = ''__proto__'' then ''[object Object]''
          else ''function '' @ (if member = ''constructor'' then ''Object'' else member)
               @ ''() { [native code] }'')"

text \<open>
  \<open>VercelPlatform.listRemoteVars\<close>: the whole body is inside \<open>try\<close>; the \<open>catch\<close> branch
  logs the failure of the command and returns an empty set.
\<close>

definition vercel_listRemoteVars ::
  "'w exec \<Rightarrow> string property \<Rightarrow> 'w \<Rightarrow> (js_error + string list) \<times> 'w" where
  "vercel_listRemoteVars execSync environment w =
     (case execSync (''vc env ls '' @ template environment) w of
        (Inr output, w') \<Rightarrow>
          (Inr (foldl add_listed_var [] (filter (\<lambda>line. trim line \<noteq> []) (split_lines output))), w')
      | (Inl error, w') \<Rightarrow> (Inr [], w'))"

text \<open>
  \<open>VercelPlatform.setRemoteVar\<close> first removes the variable, ignoring a failure, then adds
  it; \<open>removeRemoteVar\<close> removes it.  Both catch the failure of the command and return
  \<open>false\<close>.
\<close>

definition vercel_setRemoteVar ::
  "'w exec \<Rightarrow> string \<Rightarrow> string property \<Rightarrow> string property \<Rightarrow> 'w \<Rightarrow> (js_error + bool) \<times> 'w" where
  "vercel_setRemoteVar execSync key v environment w =
     (case execSync (''vc env rm '' @ key @ '' '' @ template environment @ '' -y'') w of
        (removed, w1) \<Rightarrow>
          (case execSync (''echo '' @ [CHR 0x22] @ template v @ [CHR 0x22] @ '' | vc env add '' @ key
                           @ '' '' @ template environment) w1 of
             (Inr out, w2) \<Rightarrow> (Inr True, w2)
           | (Inl error, w2) \<Rightarrow> (Inr False, w2)))"

definition vercel_removeRemoteVar ::
  "'w exec \<Rightarrow> string \<Rightarrow> string property \<Rightarrow> 'w \<Rightarrow> (js_error + bool) \<times> 'w" where
  "vercel_removeRemoteVar execSync key environment w =
     (case execSync (''vc env rm '' @ key @ '' '' @ template environment @ '' -y'') w of
        (Inr out, w') \<Rightarrow> (Inr True, w')
      | (Inl error, w') \<Rightarrow> (Inr False, w'))"


definition vercel_getSystemVars :: "string list" where
  "vercel_getSystemVars = new_Set (base_getSystemVars @ new_Set
     [''VERCEL*'', ''CI'', ''VERCEL_ENV'', ''VERCEL_TARGET_ENV'', ''VERCEL_URL'',
      ''VERCEL_BRANCH_URL'', ''VERCEL_PROJECT_PRODUCTION_URL'', ''VERCEL_REGION'',
      ''VERCEL_DEPLOYMENT_ID'', ''VERCEL_PROJECT_ID'', ''VERCEL_SKEW_PROTECTION_ENABLED'',
      ''VERCEL_AUTOMATION_BYPASS_SECRET'', ''VERCEL_OIDC_TOKEN'', ''VERCEL_GIT_PROVIDER'',
      ''VERCEL_GIT_REPO_SLUG'', ''VERCEL_GIT_REPO_OWNER'', ''VERCEL_GIT_REPO_ID'',
      ''VERCEL_GIT_COMMIT_REF'', ''VERCEL_GIT_COMMIT_SHA'', ''VERCEL_GIT_COMMIT_MESSAGE'',
      ''VERCEL_GIT_COMMIT_AUTHOR_LOGIN'', ''VERCEL_GIT_COMMIT_AUTHOR_NAME'',
      ''VERCEL_GIT_PREVIOUS_SHA'', ''VERCEL_GIT_PULL_REQUEST_ID'', ''NEXT_PUBLIC_VERCEL_URL'',
      ''NEXT_PUBLIC_VERCEL_ENV'', ''NEXT_PUBLIC_VERCEL_PROJECT_PRODUCTION_URL'',
      ''NEXT_PUBLIC_VERCEL_BRANCH_URL'', ''NEXT_PUBLIC_VERCEL_GIT_PROVIDER'',
      ''NEXT_PUBLIC_VERCEL_GIT_REPO_SLUG'', ''NEXT_PUBLIC_VERCEL_GIT_REPO_OWNER'',
      ''NEXT_PUBLIC_VERCEL_GIT_REPO_ID'', ''NEXT_PUBLIC_VERCEL_GIT_COMMIT_REF'',
      ''NEXT_PUBLIC_VERCEL_GIT_COMMIT_SHA'', ''NEXT_PUBLIC_VERCEL_GIT_COMMIT_MESSAGE'',
      ''NEXT_PUBLIC_VERCEL_GIT_COMMIT_AUTHOR_LOGIN'', ''NEXT_PUBLIC_VERCEL_GIT_COMMIT_AUTHOR_NAME'',
      ''NEXT_PUBLIC_VERCEL_GIT_PULL_REQUEST_ID''])"

definition VercelPlatform :: "'w exec \<Rightarrow> 'w platform" where
  "VercelPlatform execSync =
     \<lparr>platform_name = ''vercel'',
      getSystemVars = vercel_getSystemVars,
      getValidEnvironments = [''development'', ''preview'', ''production''],
      listRemoteVars = vercel_listRemoteVars execSync,
      setRemoteVar = vercel_setRemoteVar execSync,
      removeRemoteVar = vercel_removeRemoteVar execSync\<rparr>"

section \<open>Confirmation\<close>

text \<open>
  What a run does to its collaborators is recorded as a list of events: the call of
  \<open>calculateChanges\<close> with its arguments, a question put to the user, and the calls of
  the platform's two mutators.
\<close>

datatype event =
    CalculateChanges vars "string list"
  | Question string
  | RemoveRemoteVar string "string property"
  | SetRemoteVar string "string property" "string property"

text \<open>
  The collaborators whose code is outside these sources are parameters:
  \<open>EnvParser.parseFile\<close>, the \<open>isValid\<close> field of \<open>EnvParser.validate\<close>, and the user
  answering a \<open>readline\<close> question.
\<close>

record 'w host =
  parseFile :: "string property \<Rightarrow> 'w \<Rightarrow> (js_error + vars) \<times> 'w"
  isValid :: "vars \<Rightarrow> bool"
  question :: "string \<Rightarrow> 'w \<Rightarrow> string \<times> 'w"

record changes =
  toAdd :: "string list"
  toUpdate :: "string list"
  toRemove :: "string list"
  protected :: "string list"

definition toLowerCase_char :: "char \<Rightarrow> char" where
  "toLowerCase_char c =
     (let n = (of_char c :: nat) in
      if (65 \<le> n \<and> n \<le> 90) \<or> (192 \<le> n \<and> n \<le> 222 \<and> n \<noteq> 215) then char_of (n + 32) else c)"

text \<open>A number inside a template literal.\<close>

fun show_nat :: "nat \<Rightarrow> string" where
  "show_nat n = (if n < 10 then [char_of (48 + n)] else show_nat (n div 10) @ [char_of (48 + n mod 10)])"

text \<open>\<open>Prompts.confirm\<close> and \<open>Prompts.confirmChanges\<close> (\<open>utils/prompts.js\<close>).\<close>

definition confirm :: "'w host \<Rightarrow> string \<Rightarrow> bool \<Rightarrow> 'w \<Rightarrow> bool \<times> event list \<times> 'w" where
  "confirm h message defaultValue w =
     (let defaultText = (if defaultValue then ''Y/n'' else ''y/N'');
          query = message @ '' ('' @ defaultText @ '') ''
      in case question h query w of
           (answer, w') \<Rightarrow>
             (if answer = [] then defaultValue else startsWith (map toLowerCase_char answer) ''y'',
              [Question query], w'))"

definition confirmChanges :: "'w host \<Rightarrow> changes \<Rightarrow> 'w \<Rightarrow> bool \<times> event list \<times> 'w" where
  "confirmChanges h summary w =
     (let total = length (toAdd summary) + length (toUpdate summary) + length (toRemove summary) in
      if total = 0 then (False, [], w)
      else confirm h ([CHR 0x0A] @ ''Do you want to proceed with these '' @ show_nat total @ '' changes?'')
             False w)"

section \<open>Loading the Syncer class\<close>

text \<open>
  \<open>core/syncer.js\<close> declares \<open>class Syncer\<close> and exports it.  The body of a class is
  strict mode code, and in strict mode code the words of \<open>strict_reserved_words\<close> are
  reserved: a parameter, a declared name or a reference spelled as one of them is an
  early error, a SyntaxError raised when the file is compiled, before its first
  statement runs.  \<open>Syncer_declared_names\<close> lists, for each member of \<open>class Syncer\<close> in
  the order of the file, its parameters (those of its arrow functions included) and the
  names it declares with \<open>const\<close>.  \<open>require_Syncer\<close> is what \<open>require('./core/syncer')\<close>
  does: it throws the early error, or it yields the class.
\<close>

definition strict_reserved_words :: "string list" where
  "strict_reserved_words =
     [''implements'', ''interface'', ''let'', ''package'', ''private'', ''protected'', ''public'',
      ''static'', ''yield'']"

definition Syncer_declared_names :: "(string \<times> string list) list" where
  "Syncer_declared_names =
     [(''constructor'', [''options'']),
      (''setPlatform'', [''platform'']),
      (''push'', [''environment'', ''options'', ''filePath'', ''target'', ''localVars'', ''filteredVars'',
                 ''validation'', ''warning'', ''issue'', ''remoteVars'', ''changes'', ''shouldProceed'']),
      (''pull'', [''environment'', ''options'', ''filePath'', ''target'', ''success'']),
      (''status'', [''environment'', ''options'', ''env'']),
      (''diff'', [''environment'', ''options'', ''filePath'', ''target'', ''localVars'', ''remoteVars'',
                 ''changes'']),
      (''showEnvironmentStatus'', [''environment'', ''filePath'', ''target'', ''localVars'',
                 ''remoteVars'', ''changes'', ''total'']),
      (''calculateChanges'', [''localVars'', ''remoteVars'', ''toAdd'', ''key'', ''toUpdate'', ''toRemove'',
                 ''protected'']),
      (''applyChanges'', [''changes'', ''localVars'', ''target'', ''key'']),
      (''showDetailedChanges'', [''changes'', ''localVars'', ''key'', ''value'', ''preview''])]"

definition early_error :: "(string \<times> string list) list \<Rightarrow> bool" where
  "early_error members =
     list_ex (\<lambda>(member, names). list_ex (\<lambda>name. name \<in> set strict_reserved_words) names) members"

datatype loaded = Syncer_class

definition require_Syncer :: "js_error + loaded" where
  "require_Syncer = (if early_error Syncer_declared_names then Inl SyntaxError else Inr Syncer_class)"

section \<open>The methods of Syncer\<close>

text \<open>
  A method of \<open>Syncer\<close> exists only on the class that \<open>require_Syncer\<close> yields, so each
  method below first obtains the class and ends with the exception of the load when
  there is none; its second branch is the text of the method.
\<close>

text \<open>
  \<open>localVars.hasOwnProperty(key)\<close>: the method is looked up on the object itself first.
  A variable named \<open>hasOwnProperty\<close> is an own property holding a string, and calling a
  string throws a TypeError.
\<close>

definition hasOwnProperty :: "vars \<Rightarrow> string \<Rightarrow> js_error + bool" where
  "hasOwnProperty localVars key =
     (if ''hasOwnProperty'' \<in> set (object_keys localVars) then Inl TypeError
      else Inr (key \<in> set (object_keys localVars)))"

text \<open>\<open>array.filter(callback)\<close> with a callback that may throw.\<close>

fun filter_throwing :: "('a \<Rightarrow> js_error + bool) \<Rightarrow> 'a list \<Rightarrow> js_error + 'a list" where
  "filter_throwing f [] = Inr []"
| "filter_throwing f (x # xs) =
     (case f x of
        Inl e \<Rightarrow> Inl e
      | Inr keep \<Rightarrow>
          (case filter_throwing f xs of
             Inl e \<Rightarrow> Inl e
           | Inr ys \<Rightarrow> Inr (if keep then x # ys else ys)))"

definition negated :: "js_error + bool \<Rightarrow> js_error + bool" where
  "negated r = (case r of Inl e \<Rightarrow> Inl e | Inr b \<Rightarrow> Inr (\<not> b))"

definition calculateChanges ::
  "regexp_engine \<Rightarrow> 'w platform \<Rightarrow> vars \<Rightarrow> string list \<Rightarrow> js_error + changes" where
  "calculateChanges E p localVars remoteVars =
     (case require_Syncer of
        Inl e \<Rightarrow> Inl e
      | Inr Syncer_class \<Rightarrow>
     (let add = filter (\<lambda>key. key \<notin> set remoteVars) (object_keys localVars);
          update = filter (\<lambda>key. key \<in> set remoteVars) (object_keys localVars)
      in case filter_throwing (\<lambda>key. negated (hasOwnProperty localVars key)) remoteVars of
           Inl e \<Rightarrow> Inl e
         | Inr remoteOnly \<Rightarrow>
       (case filter_throwing (\<lambda>key. negated (isProtectedVar E p key)) remoteOnly of
           Inl e \<Rightarrow> Inl e
         | Inr remove \<Rightarrow>
       (case filter_throwing (\<lambda>key. negated (hasOwnProperty localVars key)) remoteVars of
           Inl e \<Rightarrow> Inl e
         | Inr remoteOnly' \<Rightarrow>
       (case filter_throwing (\<lambda>key. isProtectedVar E p key) remoteOnly' of
           Inl e \<Rightarrow> Inl e
         | Inr prot \<Rightarrow>
             Inr \<lparr>toAdd = add, toUpdate = update, toRemove = remove, protected = prot\<rparr>)))))"

text \<open>
  The two \<open>for\<close> loops of \<open>applyChanges\<close>.  The boolean a mutator returns is dropped; a
  mutator that throws ends the loop with the exception.  The value passed to
  \<open>setRemoteVar\<close> is \<open>localVars[key]\<close>.
\<close>

fun remove_each ::
  "'w platform \<Rightarrow> string property \<Rightarrow> string list \<Rightarrow> 'w \<Rightarrow> (js_error + unit) \<times> event list \<times> 'w" where
  "remove_each p target [] w = (Inr (), [], w)"
| "remove_each p target (key # rest) w =
     (case removeRemoteVar p key target w of
        (Inl e, w') \<Rightarrow> (Inl e, [RemoveRemoteVar key target], w')
      | (Inr ok, w') \<Rightarrow>
          (case remove_each p target rest w' of
             (r, evs, w'') \<Rightarrow> (r, RemoveRemoteVar key target # evs, w'')))"

fun set_each ::
  "'w platform \<Rightarrow> vars \<Rightarrow> string property \<Rightarrow> string list \<Rightarrow> 'w \<Rightarrow> (js_error + unit) \<times> event list \<times> 'w" where
  "set_each p localVars target [] w = (Inr (), [], w)"
| "set_each p localVars target (key # rest) w =
     (case setRemoteVar p key (get_property localVars key) target w of
        (Inl e, w') \<Rightarrow> (Inl e, [SetRemoteVar key (get_property localVars key) target], w')
      | (Inr ok, w') \<Rightarrow>
          (case set_each p localVars target rest w' of
             (r, evs, w'') \<Rightarrow> (r, SetRemoteVar key (get_property localVars key) target # evs, w'')))"

definition applyChanges ::
  "'w platform \<Rightarrow> changes \<Rightarrow> vars \<Rightarrow> string property \<Rightarrow> 'w \<Rightarrow> (js_error + unit) \<times> event list \<times> 'w" where
  "applyChanges p chs localVars target w =
     (case require_Syncer of
        Inl e \<Rightarrow> (Inl e, [], w)
      | Inr Syncer_class \<Rightarrow>
     (case remove_each p target (toRemove chs) w of
        (Inl e, evs, w1) \<Rightarrow> (Inl e, evs, w1)
      | (Inr u, evs, w1) \<Rightarrow>
          (case set_each p localVars target (toAdd chs @ toUpdate chs) w1 of
             (r, evs', w2) \<Rightarrow> (r, evs @ evs', w2))))"

record 'w syncer =
  config :: config
  platform :: "'w platform option"
  skipConfirmation :: bool

datatype push_outcome = InvalidEnvironment | NoVariables | ValidationFailed | Cancelled | Pushed

text \<open>
  \<open>Syncer.push\<close>.  The result is how the call ends (an exception, or the \<open>return\<close>
  reached), the events of the run and the world it leaves.  \<open>options_file\<close> is
  \<open>options.file\<close>, \<open>None\<close> when the option is absent; \<open>||\<close> passes over an empty string as
  it does over \<open>undefined\<close>.
\<close>

definition push ::
  "regexp_engine \<Rightarrow> 'w syncer \<Rightarrow> 'w host \<Rightarrow> string \<Rightarrow> string option \<Rightarrow> 'w
   \<Rightarrow> (js_error + push_outcome) \<times> event list \<times> 'w" where
  "push E s h environment options_file w =
     (case require_Syncer of
        Inl e \<Rightarrow> (Inl e, [], w)
      | Inr Syncer_class \<Rightarrow>
     (case platform s of
        None \<Rightarrow> (Inl (Error ''Platform not set''), [], w)
      | Some p \<Rightarrow>
     if \<not> validateEnvironment p environment then (Inr InvalidEnvironment, [], w)
     else
     (case (case options_file of
              Some f \<Rightarrow> if f \<noteq> [] then Inr (Own f) else getFilePath (config s) environment
            | None \<Rightarrow> getFilePath (config s) environment) of
        Inl e \<Rightarrow> (Inl e, [], w)
      | Inr filePath \<Rightarrow>
     (case getTarget (config s) environment of
        Inl e \<Rightarrow> (Inl e, [], w)
      | Inr target \<Rightarrow>
     (case parseFile h filePath w of
        (Inl e, w1) \<Rightarrow> (Inl e, [], w1)
      | (Inr localVars, w1) \<Rightarrow>
     if length (object_keys localVars) = 0 then (Inr NoVariables, [], w1)
     else
     (case filterVars E (config s) localVars of
        Inl e \<Rightarrow> (Inl e, [], w1)
      | Inr (filteredVars, excluded) \<Rightarrow>
     if \<not> isValid h filteredVars then (Inr ValidationFailed, [], w1)
     else
     (case listRemoteVars p target w1 of
        (Inl e, w2) \<Rightarrow> (Inl e, [], w2)
      | (Inr remoteVars, w2) \<Rightarrow>
     (case calculateChanges E p filteredVars remoteVars of
        Inl e \<Rightarrow> (Inl e, [CalculateChanges filteredVars remoteVars], w2)
      | Inr chs \<Rightarrow>
     (case (if \<not> skipConfirmation s then confirmChanges h chs w2 else (True, [], w2)) of
        (shouldProceed, asked, w3) \<Rightarrow>
          if \<not> shouldProceed
          then (Inr Cancelled, CalculateChanges filteredVars remoteVars # asked, w3)
          else (case applyChanges p chs filteredVars target w3 of
                  (Inl e, evs, w4) \<Rightarrow> (Inl e, CalculateChanges filteredVars remoteVars # asked @ evs, w4)
                | (Inr u, evs, w4) \<Rightarrow>
                    (Inr Pushed, CalculateChanges filteredVars remoteVars # asked @ evs, w4)))))))))))"

section \<open>Predicates and scenarios used in the statements\<close>

text \<open>The matcher returns a boolean for this name on every pattern of the configuration.\<close>

definition patterns_evaluate :: "regexp_engine \<Rightarrow> config \<Rightarrow> string \<Rightarrow> bool" where
  "patterns_evaluate E c key =
     (\<forall>pattern\<in>set (cfg_include c @ cfg_exclude c). \<exists>b. pattern_test_on E key pattern = Inr b)"

text \<open>What \<open>filterVars\<close> keeps: distinct names, none excluded, none named \<open>__proto__\<close>.\<close>

definition kept :: "regexp_engine \<Rightarrow> config \<Rightarrow> vars \<Rightarrow> bool" where
  "kept E c obj = (distinct (map fst obj) \<and>
     (\<forall>k\<in>set (map fst obj). shouldExclude E c k = Inr False \<and> k \<noteq> ''__proto__''))"


text \<open>A configuration with one exclude pattern that is no regular expression.\<close>

definition unmatched_paren_config :: config where
  "unmatched_paren_config = \<lparr>environments = [], cfg_exclude = [''A)*''], cfg_include = []\<rparr>"

text \<open>
  Shells: every command fails; only the listing of \<open>development\<close> fails; every command
  succeeds with no output, as the listing of a remote without variables does.
\<close>

definition always_failing :: "unit exec" where
  "always_failing command w = (Inl (Error ''Command failed''), w)"



text \<open>A change set with one name to add, one to update and one to remove.\<close>

definition one_of_each :: changes where
  "one_of_each = \<lparr>toAdd = [''NEW_VAR''], toUpdate = [''API_KEY''], toRemove = [''OLD_VAR''], protected = []\<rparr>"

section \<open>Properties of the pattern matcher\<close>

lemma glob_match_lang: "glob_match p s \<longleftrightarrow> s \<in> glob_lang p"
proof (induction p s rule: glob_match.induct)
  case (1 s)
  show ?case by auto
next
  case (2 c p)
  show ?case using 2 by auto
next
  case (3 c p x s)
  show ?case
  proof (cases "c = CHR ''*''")
    case True
    have "x # s \<in> glob_lang (c # p) \<longleftrightarrow> s \<in> glob_lang (c # p) \<or> x # s \<in> glob_lang p"
    proof
      assume "x # s \<in> glob_lang (c # p)"
      then obtain run t where rt: "x # s = run @ t" "t \<in> glob_lang p" using True by auto
      show "s \<in> glob_lang (c # p) \<or> x # s \<in> glob_lang p"
      proof (cases run)
        case Nil
        then show ?thesis using rt by simp
      next
        case (Cons y ys)
        then have "s = ys @ t" using rt by simp
        then show ?thesis using rt True by auto
      qed
    next
      assume "s \<in> glob_lang (c # p) \<or> x # s \<in> glob_lang p"
      then show "x # s \<in> glob_lang (c # p)"
      proof
        assume "s \<in> glob_lang (c # p)"
        then obtain run t where "s = run @ t" "t \<in> glob_lang p" using True by auto
        then have "x # s = (x # run) @ t" "t \<in> glob_lang p" by simp_all
        then show ?thesis using True by (simp del: append_Cons) blast
      next
        assume "x # s \<in> glob_lang p"
        then have "x # s = [] @ (x # s)" "x # s \<in> glob_lang p" by simp_all
        then show ?thesis using True by (simp del: append_Nil) blast
      qed
    qed
    then show ?thesis using 3 True by simp
  next
    case False
    then show ?thesis using 3 by auto
  qed
qed

lemma replace_stars_head: "replace_stars p @ ''$'' = d # ds \<Longrightarrow> d \<noteq> CHR ''*''"
  by (cases p) (auto split: if_splits)

lemma parse_plain:
  "plain_pattern p \<Longrightarrow> regexp_parse (replace_stars p @ ''$'') = Inr (glob_items p @ [AssertEnd])"
proof (induction p)
  case Nil
  show ?case by simp
next
  case (Cons c p)
  then have ih: "regexp_parse (replace_stars p @ ''$'') = Inr (glob_items p @ [AssertEnd])"
    by (simp add: plain_pattern_def)
  show ?case
  proof (cases "c = CHR ''*''")
    case True
    then show ?thesis using ih by (simp add: syntax_chars_def)
  next
    case False
    then have c: "c \<notin> set syntax_chars" using Cons.prems by (simp add: plain_pattern_def)
    then have c': "c \<noteq> CHR ''^''" "c \<noteq> CHR ''$''" "c \<noteq> CHR '')''" "c \<noteq> CHR ''.''"
      by (auto simp: syntax_chars_def)
    obtain d ds where dd: "replace_stars p @ ''$'' = d # ds"
      by (cases "replace_stars p @ ''$''") auto
    then have "d \<noteq> CHR ''*''" by (rule replace_stars_head)
    then show ?thesis using False c c' dd ih by simp
  qed
qed

lemma search_anchored: "regexp_search (AssertStart # r) False s = False"
  by (induction s) auto

lemma test_anchored: "regexp_test (AssertStart # r) s = match_here r True s"
  by (cases s) (auto simp: regexp_test_def search_anchored)

lemma match_glob_items:
  "no_line_terminator s \<Longrightarrow> match_here (glob_items p @ [AssertEnd]) b s = glob_match p s"
proof (induction p s arbitrary: b rule: glob_match.induct)
  case (1 s)
  show ?case by simp
next
  case (2 c p)
  then show ?case by simp
next
  case (3 c p x s)
  then show ?case by (auto simp: no_line_terminator_def)
qed

lemma pattern_test_plain:
  assumes "CHR ''*'' \<in> set p" "plain_pattern p" "no_line_terminator s"
  shows "pattern_test s p = Inr (s \<in> glob_lang p)"
  using assms
  by (simp add: pattern_test_def parse_plain test_anchored match_glob_items glob_match_lang)

lemma pattern_test_exact: "CHR ''*'' \<notin> set p \<Longrightarrow> pattern_test s p = Inr (s = p)"
  by (simp add: pattern_test_def)

text \<open>
  C4 (amended).  A pattern without \<open>*\<close> matches exactly the equal name, for every name
  and pattern.  A pattern with \<open>*\<close> whose other characters are no RegExp syntax
  characters, tested on a name without line terminators, matches exactly the names of
  \<open>glob_lang\<close>: every \<open>*\<close> a run of zero or more characters, the whole pattern against the
  whole name.  \<open>VERCEL_*\<close> matches \<open>VERCEL_URL\<close> and does not match \<open>MY_VERCEL_URL\<close>.
\<close>

theorem pattern_test_glob:
  "(CHR ''*'' \<notin> set pattern \<longrightarrow> pattern_test name pattern = Inr (name = pattern)) \<and>
   (CHR ''*'' \<in> set pattern \<and> plain_pattern pattern \<and> no_line_terminator name \<longrightarrow>
      pattern_test name pattern = Inr (name \<in> glob_lang pattern)) \<and>
   pattern_test ''VERCEL_URL'' ''VERCEL_*'' = Inr True \<and>
   pattern_test ''MY_VERCEL_URL'' ''VERCEL_*'' = Inr False"
proof -
  have ex: "pattern_test ''VERCEL_URL'' ''VERCEL_*'' = Inr True"
    "pattern_test ''MY_VERCEL_URL'' ''VERCEL_*'' = Inr False"
    by (simp_all add: pattern_test_def regexp_test_def syntax_chars_def is_line_terminator_def)
  show ?thesis
    using ex pattern_test_exact [of pattern name] pattern_test_plain [of pattern name] by blast
qed

theorem pattern_test_glob_witness:
  "CHR ''*'' \<notin> set ''FOO'' \<and> pattern_test ''FOO'' ''FOO'' = Inr True \<and>
   pattern_test ''FOO'' ''BAR'' = Inr False \<and>
   CHR ''*'' \<in> set ''NEXT_PUBLIC_*'' \<and> plain_pattern ''NEXT_PUBLIC_*'' \<and>
   no_line_terminator ''NEXT_PUBLIC_URL'' \<and>
   pattern_test ''NEXT_PUBLIC_URL'' ''NEXT_PUBLIC_*'' = Inr (''NEXT_PUBLIC_URL'' \<in> glob_lang ''NEXT_PUBLIC_*'') \<and>
   glob_match ''NEXT_PUBLIC_*'' ''NEXT_PUBLIC_URL''"
  using pattern_test_glob [of "''FOO''" "''FOO''"] pattern_test_glob [of "''BAR''" "''FOO''"]
    pattern_test_glob [of "''NEXT_PUBLIC_*''" "''NEXT_PUBLIC_URL''"]
  by (simp add: plain_pattern_def no_line_terminator_def syntax_chars_def is_line_terminator_def)

text \<open>
  C4 as stated fails.  The pattern \<open>A.B*\<close> matches the name \<open>AXB\<close> in the program (the dot
  is a RegExp wildcard), but not in the stated reading; and \<open>A*\<close> does not match the name
  \<open>A\<close>, line feed, \<open>B\<close> in the program (\<open>.\<close> stops at a line terminator), although a run
  of characters for the \<open>*\<close> exists.
\<close>

theorem pattern_test_glob_counterexample:
  "pattern_test ''AXB'' ''A.B*'' = Inr True \<and> ''AXB'' \<notin> glob_lang ''A.B*'' \<and>
   pattern_test [CHR ''A'', CHR 0x0A, CHR ''B''] ''A*'' = Inr False \<and>
   [CHR ''A'', CHR 0x0A, CHR ''B''] \<in> glob_lang ''A*''"
proof -
  have "pattern_test ''AXB'' ''A.B*'' = Inr True"
    "pattern_test [CHR ''A'', CHR 0x0A, CHR ''B''] ''A*'' = Inr False"
    by (simp_all add: pattern_test_def regexp_test_def syntax_chars_def is_line_terminator_def)
  moreover have "\<not> glob_match ''A.B*'' ''AXB''" "glob_match ''A*'' [CHR ''A'', CHR 0x0A, CHR ''B'']"
    by simp_all
  ultimately show ?thesis by (simp only: glob_match_lang) simp
qed


section \<open>Engines that conform to the reference\<close>

lemma conforms_reference: "conforms reference_engine"
  by (simp add: conforms_def)

lemma pattern_test_on_reference: "pattern_test_on reference_engine key pattern = pattern_test key pattern"
  by (simp add: pattern_test_on_def pattern_test_def reference_engine_def regexp_source_def
      split: sum.splits)

lemma pattern_test_on_conforms:
  assumes "conforms E" "regexp_parse (regexp_source pattern) \<noteq> Inl OutsideModel"
  shows "pattern_test_on E key pattern = pattern_test key pattern"
proof -
  have "E (regexp_source pattern) = reference_engine (regexp_source pattern)"
    using assms by (simp add: conforms_def)
  then have "pattern_test_on E key pattern = pattern_test_on reference_engine key pattern"
    by (simp add: pattern_test_on_def)
  then show ?thesis by (simp add: pattern_test_on_reference)
qed

text \<open>
  What is proved of \<open>pattern_test\<close> for plain patterns holds of the test on every engine
  that conforms: the source of a plain pattern is inside the fragment.
\<close>

lemma plain_inside: "plain_pattern p \<Longrightarrow> regexp_parse (regexp_source p) \<noteq> Inl OutsideModel"
  using parse_plain [of p] by (simp add: regexp_source_def)

lemma pattern_test_on_glob:
  assumes "conforms E" "CHR ''*'' \<in> set pattern" "plain_pattern pattern" "no_line_terminator name"
  shows "pattern_test_on E name pattern = Inr (name \<in> glob_lang pattern)"
  using pattern_test_on_conforms [OF assms(1) plain_inside [OF assms(3)], of name]
    pattern_test_plain [OF assms(2,3,4)]
  by simp

lemma pattern_test_on_exact: "CHR ''*'' \<notin> set p \<Longrightarrow> pattern_test_on E s p = Inr (s = p)"
  by (simp add: pattern_test_on_def)

lemma pattern_test_on_returns:
  "(\<exists>b. pattern_test_on E name pattern = Inr b) \<longleftrightarrow>
   CHR ''*'' \<notin> set pattern \<or> (\<exists>regex. E (regexp_source pattern) = Inr regex)"
  by (cases "E (regexp_source pattern)") (auto simp: pattern_test_on_def)

lemma pattern_test_on_throws:
  "CHR ''*'' \<in> set pattern \<Longrightarrow> E (regexp_source pattern) = Inl e \<Longrightarrow> pattern_test_on E name pattern = Inl e"
  by (simp add: pattern_test_on_def)

text \<open>
  Inside the fragment the source of a pattern is a regular expression unless the
  pattern holds a \<open>)\<close>, and with a \<open>)\<close> it is a SyntaxError.
\<close>

lemma parse_fragment_paren:
  "fragment_pattern p \<Longrightarrow> CHR '')'' \<in> set p \<Longrightarrow> regexp_parse (replace_stars p @ ''$'') = Inl SyntaxError"
proof (induction p)
  case Nil
  then show ?case by simp
next
  case (Cons c p)
  show ?case
  proof (cases "c = CHR '')''")
    case True
    then show ?thesis by simp
  next
    case False
    then have ih: "regexp_parse (replace_stars p @ ''$'') = Inl SyntaxError"
      using Cons by (simp add: fragment_pattern_def)
    have c: "c \<in> set syntax_chars \<longrightarrow> c \<in> {CHR ''^'', CHR ''$'', CHR ''.'', CHR ''*''}"
      using Cons.prems False by (auto simp: fragment_pattern_def syntax_chars_def)
    obtain d ds where dd: "replace_stars p @ ''$'' = d # ds"
      by (cases "replace_stars p @ ''$''") auto
    then have "d \<noteq> CHR ''*''" by (rule replace_stars_head)
    then show ?thesis using False c dd ih by (auto simp: syntax_chars_def)
  qed
qed

lemma parse_fragment_regex:
  "fragment_pattern p \<Longrightarrow> CHR '')'' \<notin> set p \<Longrightarrow> \<exists>its. regexp_parse (replace_stars p @ ''$'') = Inr its"
proof (induction p)
  case Nil
  show ?case by simp
next
  case (Cons c p)
  then obtain its where ih: "regexp_parse (replace_stars p @ ''$'') = Inr its"
    by (auto simp: fragment_pattern_def)
  have c: "c \<noteq> CHR '')''" "c \<in> set syntax_chars \<longrightarrow> c \<in> {CHR ''^'', CHR ''$'', CHR ''.'', CHR ''*''}"
    using Cons.prems by (auto simp: fragment_pattern_def syntax_chars_def)
  obtain d ds where dd: "replace_stars p @ ''$'' = d # ds"
    by (cases "replace_stars p @ ''$''") auto
  then have "d \<noteq> CHR ''*''" by (rule replace_stars_head)
  then show ?case using c dd ih by (auto simp: syntax_chars_def)
qed

lemma source_fragment_paren:
  "fragment_pattern p \<Longrightarrow> CHR '')'' \<in> set p \<Longrightarrow> regexp_parse (regexp_source p) = Inl SyntaxError"
  using parse_fragment_paren [of p] by (simp add: regexp_source_def)

lemma source_fragment_regex:
  "fragment_pattern p \<Longrightarrow> CHR '')'' \<notin> set p \<Longrightarrow> \<exists>its. regexp_parse (regexp_source p) = Inr its"
  using parse_fragment_regex [of p] by (auto simp: regexp_source_def)

lemma source_fragment_inside:
  "fragment_pattern p \<Longrightarrow> regexp_parse (regexp_source p) \<noteq> Inl OutsideModel"
  using source_fragment_paren [of p] source_fragment_regex [of p] by (cases "CHR '')'' \<in> set p") auto

lemma conforms_fragment_paren:
  assumes "conforms E" "fragment_pattern p" "CHR ''*'' \<in> set p" "CHR '')'' \<in> set p"
  shows "pattern_test_on E s p = Inl SyntaxError"
proof -
  have "E (regexp_source p) = reference_engine (regexp_source p)"
    using assms(1) source_fragment_inside [OF assms(2)] by (simp add: conforms_def)
  then have "E (regexp_source p) = Inl SyntaxError"
    using source_fragment_paren [OF assms(2,4)] by (simp add: reference_engine_def)
  then show ?thesis using assms(3) by (simp add: pattern_test_on_def)
qed

lemma conforms_fragment_regex:
  assumes "conforms E" "fragment_pattern p" "CHR '')'' \<notin> set p"
  shows "\<exists>b. pattern_test_on E s p = Inr b"
proof -
  obtain its where its: "regexp_parse (regexp_source p) = Inr its"
    using source_fragment_regex [OF assms(2,3)] by blast
  have "E (regexp_source p) = reference_engine (regexp_source p)"
    using assms(1) its by (simp add: conforms_def)
  then have "E (regexp_source p) = Inr (regexp_test its)"
    using its by (simp add: reference_engine_def)
  then show ?thesis by (simp add: pattern_test_on_def)
qed

lemma conforms_fragment_returns:
  assumes "conforms E" "fragment_pattern p"
  shows "(\<exists>b. pattern_test_on E s p = Inr b) \<longleftrightarrow> CHR ''*'' \<notin> set p \<or> CHR '')'' \<notin> set p"
proof (cases "CHR ''*'' \<in> set p \<and> CHR '')'' \<in> set p")
  case True
  then have "pattern_test_on E s p = Inl SyntaxError"
    using conforms_fragment_paren [OF assms] by simp
  then show ?thesis using True by simp
next
  case False
  then have "\<exists>b. pattern_test_on E s p = Inr b"
    using conforms_fragment_regex [OF assms] pattern_test_on_exact [of p E s] by blast
  then show ?thesis using False by blast
qed

lemmas reference_eval =
  pattern_test_on_def regexp_source_def reference_engine_def regexp_test_def syntax_chars_def
  is_line_terminator_def

text \<open>
  C8 (amended).  The matcher is a function of the name and the pattern (and of the
  engine of the runtime), without side effects.  It returns a boolean exactly when the
  pattern has no \<open>*\<close> or \<open>new RegExp('^' + pattern.replace(/\*/g, '.*') + '$')\<close> returns
  a regex; when the constructor throws for a pattern with \<open>*\<close>, the matcher ends with
  that exception.  For a pattern with none of the characters \<open>\ + ? ( [ ] { } |\<close> the
  constructor throws exactly when the pattern holds a \<open>)\<close>, so the matcher returns a
  boolean iff the pattern lacks a \<open>*\<close> or lacks a \<open>)\<close>.
\<close>

theorem pattern_test_on_total:
  "((\<exists>b. pattern_test_on E name pattern = Inr b) \<longleftrightarrow>
      CHR ''*'' \<notin> set pattern \<or> (\<exists>regex. E (regexp_source pattern) = Inr regex)) \<and>
   (CHR ''*'' \<in> set pattern \<and> E (regexp_source pattern) = Inl e \<longrightarrow>
      pattern_test_on E name pattern = Inl e) \<and>
   (conforms E \<and> fragment_pattern pattern \<longrightarrow>
      ((\<exists>b. pattern_test_on E name pattern = Inr b) \<longleftrightarrow>
         CHR ''*'' \<notin> set pattern \<or> CHR '')'' \<notin> set pattern))"
  using pattern_test_on_returns [of E name pattern] pattern_test_on_throws [of pattern E e name]
    conforms_fragment_returns [of E pattern name]
  by blast

theorem pattern_test_on_total_witness:
  "conforms reference_engine \<and> fragment_pattern ''VERCEL*'' \<and>
   (\<exists>b. pattern_test_on reference_engine ''VERCEL_ENV'' ''VERCEL*'' = Inr b) \<and>
   CHR ''*'' \<in> set ''A)*'' \<and> reference_engine (regexp_source ''A)*'') = Inl SyntaxError \<and>
   pattern_test_on reference_engine ''KEY'' ''A)*'' = Inl SyntaxError \<and>
   CHR ''*'' \<notin> set ''a+b'' \<and> (\<exists>b. pattern_test_on reference_engine ''a+b'' ''a+b'' = Inr b)"
proof -
  have f: "fragment_pattern ''VERCEL*''" by (simp add: fragment_pattern_def)
  have s: "CHR ''*'' \<in> set ''A)*''" "CHR ''*'' \<notin> set ''a+b''" "CHR '')'' \<notin> set ''VERCEL*''" by simp_all
  have e: "reference_engine (regexp_source ''A)*'') = Inl SyntaxError"
    by (simp add: regexp_source_def reference_engine_def syntax_chars_def)
  show ?thesis
    using conforms_reference f s e
      pattern_test_on_total [of reference_engine "''VERCEL_ENV''" "''VERCEL*''"]
      pattern_test_on_total [of reference_engine "''KEY''" "''A)*''" SyntaxError]
      pattern_test_on_total [of reference_engine "''a+b''" "''a+b''"]
    by blast
qed

text \<open>
  C8 as stated fails: for the pattern \<open>A)*\<close> the program evaluates
  \<open>new RegExp('^A).*$')\<close>, which throws a SyntaxError (unmatched parenthesis); the source
  is inside the fragment, so every conforming engine throws it
  (\<open>conforms_fragment_paren\<close>).
\<close>

theorem pattern_test_on_total_counterexample:
  "pattern_test_on reference_engine ''KEY'' ''A)*'' = Inl SyntaxError"
  by (simp add: reference_eval)

section \<open>Properties of the filter policy\<close>

lemma some_pattern_spec:
  "\<forall>p\<in>set ps. \<exists>b. pattern_test_on E k p = Inr b \<Longrightarrow>
   some_pattern E k ps = Inr (\<exists>p\<in>set ps. pattern_test_on E k p = Inr True)"
  by (induction ps) auto

lemma shouldExclude_cases:
  assumes "patterns_evaluate E c k"
  shows "shouldExclude E c k =
     Inr (if cfg_include c \<noteq> [] \<and> \<not> (\<exists>p\<in>set (cfg_include c). pattern_test_on E k p = Inr True) then True
          else (\<exists>p\<in>set (cfg_exclude c). pattern_test_on E k p = Inr True))"
proof -
  have i: "some_pattern E k (cfg_include c) = Inr (\<exists>p\<in>set (cfg_include c). pattern_test_on E k p = Inr True)"
    using assms unfolding patterns_evaluate_def by (intro some_pattern_spec) auto
  have e: "some_pattern E k (cfg_exclude c) = Inr (\<exists>p\<in>set (cfg_exclude c). pattern_test_on E k p = Inr True)"
    using assms unfolding patterns_evaluate_def by (intro some_pattern_spec) auto
  show ?thesis by (simp add: shouldExclude_def i e)
qed

lemma shouldExclude_returns: "patterns_evaluate E c k \<Longrightarrow> \<exists>b. shouldExclude E c k = Inr b"
  by (simp add: shouldExclude_cases)






lemma unmatched_paren_raises:
  assumes "conforms E"
  shows "shouldExclude E unmatched_paren_config key = Inl SyntaxError"
proof -
  have "pattern_test_on E key ''A)*'' = Inl SyntaxError"
    by (rule conforms_fragment_paren [OF assms]) (simp_all add: fragment_pattern_def)
  then show ?thesis by (simp add: unmatched_paren_config_def shouldExclude_def)
qed




lemma put_property_keys: "set (map fst (put_property k v obj)) = insert k (set (map fst obj))"
proof (induction obj)
  case Nil
  show ?case by simp
next
  case (Cons a obj)
  obtain k' v' where a: "a = (k', v')" by (cases a)
  have "set (map fst ((k', v') # put_property k v obj)) = insert k' (insert k (set (map fst obj)))"
    using Cons.IH by (simp only: list.map list.set fst_conv)
  then show ?case by (auto simp: a simp del: set_map)
qed

lemma put_property_fresh: "k \<notin> set (map fst obj) \<Longrightarrow> put_property k v obj = obj @ [(k, v)]"
  by (induction obj) auto

lemma put_property_distinct: "distinct (map fst obj) \<Longrightarrow> distinct (map fst (put_property k v obj))"
proof (induction obj)
  case Nil
  show ?case by simp
next
  case (Cons a obj)
  obtain k' v' where a: "a = (k', v')" by (cases a)
  show ?case
  proof (cases "k' = k")
    case True
    then show ?thesis using Cons.prems by (simp add: a)
  next
    case False
    have "k' \<notin> set (map fst (put_property k v obj))"
      using Cons.prems False unfolding put_property_keys by (simp add: a)
    then show ?thesis using Cons False by (simp add: a)
  qed
qed

lemma kept_assign:
  assumes "kept E c filtered" "shouldExclude E c key = Inr False"
  shows "kept E c (assign_property filtered key v)"
proof (cases "key = ''__proto__''")
  case True
  then show ?thesis using assms by (simp add: assign_property_def)
next
  case False
  have "distinct (map fst (put_property key v filtered))"
    using assms(1) by (simp add: kept_def put_property_distinct)
  moreover have "\<forall>k\<in>set (map fst (put_property key v filtered)).
      shouldExclude E c k = Inr False \<and> k \<noteq> ''__proto__''"
    unfolding put_property_keys using assms False by (auto simp: kept_def)
  ultimately show ?thesis using False by (simp add: kept_def assign_property_def)
qed

lemma filter_entries_kept:
  "filter_entries E c S F0 X0 = Inr (F, X) \<Longrightarrow> kept E c F0 \<Longrightarrow> kept E c F"
proof (induction E c S F0 X0 rule: filter_entries.induct)
  case (1 E c filtered excluded)
  then show ?case by simp
next
  case (2 E c key v rest filtered excluded)
  show ?case
  proof (cases "shouldExclude E c key")
    case (Inl e)
    then show ?thesis using 2 by simp
  next
    case (Inr ex)
    show ?thesis
    proof (cases ex)
      case True
      then show ?thesis using 2 Inr by simp
    next
      case False
      have "kept E c (assign_property filtered key v)"
        using "2.prems"(2) Inr False by (simp add: kept_assign)
      then show ?thesis using 2 Inr False by simp
    qed
  qed
qed

lemma filter_entries_again:
  "kept E c (G @ F) \<Longrightarrow> filter_entries E c F G X = Inr (G @ F, X)"
proof (induction F arbitrary: G)
  case Nil
  show ?case by simp
next
  case (Cons a F)
  obtain k v where a: "a = (k, v)" by (cases a)
  have ex: "shouldExclude E c k = Inr False" "k \<noteq> ''__proto__''" "k \<notin> set (map fst G)"
    using Cons.prems by (auto simp: kept_def a)
  have "kept E c ((G @ [(k, v)]) @ F)" using Cons.prems by (simp add: a)
  then have "filter_entries E c F (G @ [(k, v)]) X = Inr ((G @ [(k, v)]) @ F, X)" by (rule Cons.IH)
  then show ?case using ex by (simp add: a assign_property_def put_property_fresh)
qed

text \<open>
  The first pass returns whenever the matcher raises no error on the patterns of the
  configuration for the names of the snapshot.
\<close>

lemma filter_entries_returns:
  "\<forall>k\<in>set (map fst S). patterns_evaluate E c k \<Longrightarrow> \<exists>F X. filter_entries E c S F0 X0 = Inr (F, X)"
proof (induction S arbitrary: F0 X0)
  case Nil
  show ?case by simp
next
  case (Cons a S)
  obtain k v where a: "a = (k, v)" by (cases a)
  obtain b where b: "shouldExclude E c k = Inr b"
    using Cons.prems shouldExclude_returns [of E c k] by (auto simp: a)
  have rest: "\<forall>k\<in>set (map fst S). patterns_evaluate E c k" using Cons.prems by simp
  show ?case using Cons.IH [OF rest] b by (simp add: a)
qed

lemma filterVars_returns:
  "\<forall>k\<in>set (map fst S). patterns_evaluate E c k \<Longrightarrow> \<exists>F X. filterVars E c S = Inr (F, X)"
  unfolding filterVars_def by (rule filter_entries_returns)

text \<open>
  C9.  Filtering is idempotent, on every RegExp engine: when filtering a snapshot \<open>S\<close>
  with a configuration \<open>c\<close> yields the snapshot \<open>F\<close>, filtering \<open>F\<close> with \<open>c\<close> yields
  \<open>F\<close> again, and no name is excluded on that second pass.  The first pass yields a
  snapshot whenever the matcher raises no error (\<open>filterVars_returns\<close>).
\<close>

theorem filterVars_idempotent:
  "filterVars E c S = Inr (F, excluded) \<Longrightarrow> filterVars E c F = Inr (F, [])"
proof -
  assume "filterVars E c S = Inr (F, excluded)"
  then have "kept E c F" unfolding filterVars_def
    by (rule filter_entries_kept) (simp add: kept_def)
  then show ?thesis unfolding filterVars_def using filter_entries_again [of E c "[]" F "[]"] by simp
qed

theorem filterVars_idempotent_witness:
  "filterVars reference_engine getDefaults
     [(''API_KEY'', ''secret''), (''NODE_ENV'', ''production''), (''VERCEL_URL'', ''x.app'')]
     = Inr ([(''API_KEY'', ''secret'')], [''NODE_ENV'', ''VERCEL_URL'']) \<and>
   filterVars reference_engine getDefaults [(''API_KEY'', ''secret'')] = Inr ([(''API_KEY'', ''secret'')], [])"
proof -
  have 1: "filterVars reference_engine getDefaults
      [(''API_KEY'', ''secret''), (''NODE_ENV'', ''production''), (''VERCEL_URL'', ''x.app'')]
     = Inr ([(''API_KEY'', ''secret'')], [''NODE_ENV'', ''VERCEL_URL''])"
    by (simp add: filterVars_def getDefaults_def shouldExclude_def assign_property_def reference_eval)
  show ?thesis using 1 filterVars_idempotent [OF 1] by simp
qed

section \<open>Listing the remote names\<close>






section \<open>The Syncer class does not load\<close>

text \<open>
  \<open>calculateChanges\<close> declares \<open>const protected\<close> (and returns it by the shorthand
  \<open>protected\<close>): a reserved word of strict mode code in the body of a class.  So
  \<open>require('./core/syncer')\<close> throws a SyntaxError, no \<open>Syncer\<close> is ever constructed, and
  every method of the class ends with that exception before its first statement.
\<close>

lemma protected_is_reserved:
  "''protected'' \<in> set strict_reserved_words"
  "map_of Syncer_declared_names ''calculateChanges''
     = Some [''localVars'', ''remoteVars'', ''toAdd'', ''key'', ''toUpdate'', ''toRemove'', ''protected'']"
  by (simp_all add: strict_reserved_words_def Syncer_declared_names_def)

lemma require_Syncer_throws: "require_Syncer = Inl SyntaxError"
  by (simp add: require_Syncer_def early_error_def Syncer_declared_names_def strict_reserved_words_def)

text \<open>
  C1.  The claim fails on the program as it is: for every local mapping and every set
  of remote names \<open>calculateChanges\<close> ends with the SyntaxError of the load, on every
  engine and platform, and returns no change set of which the invariants could hold.
\<close>

theorem calculateChanges_never_returns:
  "calculateChanges E p localVars remoteVars = Inl SyntaxError"
  by (simp add: calculateChanges_def require_Syncer_throws)

text \<open>
  C3.  The example of the claim on the program as it is: with the local mapping
  \<open>{A: 1}\<close> and the remote names \<open>{A}\<close> the call does not return the change set with
  \<open>toUpdate = [A]\<close>; it ends with the SyntaxError of the load.
\<close>

theorem calculateChanges_update_example:
  "calculateChanges E p [(''A'', ''1'')] [''A''] = Inl SyntaxError \<and>
   calculateChanges E p [(''A'', ''1'')] [''A'']
     \<noteq> Inr \<lparr>toAdd = [], toUpdate = [''A''], toRemove = [], protected = []\<rparr>"
  by (simp add: calculateChanges_def require_Syncer_throws)

section \<open>Applying a change set\<close>

text \<open>
  C6.  The claim fails on the program as it is: for every platform, change set, local
  mapping, target and world, \<open>applyChanges\<close> ends with the SyntaxError of the load; it
  issues no removal and no set, and leaves the world as it found it.
\<close>

theorem applyChanges_never_runs:
  "applyChanges p chs localVars target w = (Inl SyntaxError, [], w)"
  by (simp add: applyChanges_def require_Syncer_throws)

text \<open>
  C7.  On a shell where every command fails, applying a change set with one name to
  add, one to update and one to remove meets no failing mutation and goes on to no
  further entry: no mutator is called at all.
\<close>

theorem applyChanges_failing_shell:
  "applyChanges (VercelPlatform always_failing) one_of_each
     [(''NEW_VAR'', ''1''), (''API_KEY'', ''2'')] (Own ''development'') ()
   = (Inl SyntaxError, [], ())"
  by (simp add: applyChanges_def require_Syncer_throws)

section \<open>Confirmation and push\<close>

lemma confirmChanges_zero:
  "confirmChanges h \<lparr>toAdd = [], toUpdate = [], toRemove = [], protected = prot\<rparr> w = (False, [], w)"
  by (simp add: confirmChanges_def)

lemma push_never_runs: "push E s h environment options_file w = (Inl SyntaxError, [], w)"
  by (simp add: push_def require_Syncer_throws)

text \<open>
  C10.  \<open>Prompts.confirmChanges\<close> does what the claim says: for a change set with
  nothing to add, update or remove, whatever it protects, it returns false, asks no
  question and leaves the world untouched.  The push of the claim does not follow:
  \<open>push\<close> never reaches the confirmation; it ends with the SyntaxError of the load
  instead of being cancelled, having issued no mutation.
\<close>

theorem confirmChanges_nothing_to_do:
  "confirmChanges h \<lparr>toAdd = [], toUpdate = [], toRemove = [], protected = prot\<rparr> w = (False, [], w) \<and>
   push E s h environment options_file w = (Inl SyntaxError, [], w) \<and>
   push E s h environment options_file w \<noteq> (Inr Cancelled, evs, w')"
  using confirmChanges_zero [of h prot w] push_never_runs [of E s h environment options_file w] by simp

end
